theory Spec2Isabelle
  imports Complex_Main
begin

section \<open>The SBPL environment of a kinematic chain: data model\<close>

text \<open>
  The development embeds \<^verbatim>\<open>sbpl_interface/src/environment_chain3d_moveit.cpp\<close>.
  A joint configuration (\<^verbatim>\<open>std::vector<double>\<close>) is a list of reals: the
  arithmetic of \<^verbatim>\<open>double\<close> is idealised to the reals. A value of type
  \<^verbatim>\<open>int\<close> is an integer; where the source computes an \<^verbatim>\<open>int\<close> that may leave
  the 32-bit range (the heuristic, the grid cells), the result is checked
  against the range and is the error \<open>IntOverflow\<close> outside of it, where the
  behaviour of the source is undefined. A trajectory point is represented by
  its \<^verbatim>\<open>positions\<close> vector, the only field the functions below read or write; a
  trajectory is the list of its points.
\<close>

type_synonym config = "real list"

datatype error = OutOfBounds | IntOverflow

text \<open>
  Modelled from the spec: the struct \<^verbatim>\<open>SBPLPlanningParams\<close> is declared in a header
  outside the source file. The fields are those the source file reads: the
  extents, origin and resolution of the field, the choice of the heuristic
  with its two cost factors, and the interpolation resolution. The cost per
  cell is an integer factor, the other numbers are \<^verbatim>\<open>double\<close>.
\<close>

record SBPLPlanningParams =
  field_x :: real
  field_y :: real
  field_z :: real
  field_origin_x :: real
  field_origin_y :: real
  field_origin_z :: real
  field_resolution :: real
  use_bfs :: bool
  cost_per_cell :: int
  cost_per_meter :: real
  interpolation_distance :: real

text \<open>
  Modelled from the spec: the entry type of the state table is declared in a
  header outside the source file. An entry holds its identifier, the lattice
  coordinates, the joint angles and the end-effector cell; the source file
  reads \<^verbatim>\<open>angles\<close> and \<^verbatim>\<open>xyz\<close>.
\<close>

record hash_entry =
  stateID :: int
  coord :: "int list"
  angles :: config
  xyz :: "int \<times> int \<times> int"

text \<open>
  The members of \<^verbatim>\<open>EnvironmentChain3DMoveIt\<close> that the functions use. The
  collision engine, the robot model and the breadth-first search are external
  libraries; each is a field holding the function the library computes:
  \<^item> \<open>checkCollision c\<close>: \<^verbatim>\<open>planning_scene_->checkCollision\<close> reports a collision
    for the robot state with group positions \<open>c\<close>;
  \<^item> \<open>interpolate a b t\<close>: the group positions of
    \<^verbatim>\<open>rs_1->interpolate(*rs_2, t, *rs_temp)\<close> for states with positions \<open>a\<close>, \<open>b\<close>;
  \<^item> \<open>shortest_angular_distance\<close>: \<^verbatim>\<open>angles::shortest_angular_distance\<close>;
  \<^item> \<open>getGlobalLinkTransform c\<close>: the translation of the tip link's pose;
  \<^item> \<open>setJointPositions c name v\<close>: the group positions after
    \<^verbatim>\<open>state_->setJointPositions(name, &v)\<close>;
  \<^item> \<open>convertJointAnglesToCoord\<close>: the discretisation of the base class;
  \<^item> \<open>bfs_getDistance\<close>: \<^verbatim>\<open>bfs_->getDistance\<close>;
  \<^item> \<open>goal\<close>: the entry \<^verbatim>\<open>goal_\<close>; \<open>state_ID_to_coord_table\<close>: the table of
    \<^verbatim>\<open>hash_data_\<close>.
\<close>

record env =
  params :: SBPLPlanningParams
  checkCollision :: "config \<Rightarrow> bool"
  interpolate :: "config \<Rightarrow> config \<Rightarrow> real \<Rightarrow> config"
  shortest_angular_distance :: "real \<Rightarrow> real \<Rightarrow> real"
  getGlobalLinkTransform :: "config \<Rightarrow> real \<times> real \<times> real"
  setJointPositions :: "config \<Rightarrow> string \<Rightarrow> real \<Rightarrow> config"
  convertJointAnglesToCoord :: "config \<Rightarrow> int list"
  bfs_getDistance :: "int \<Rightarrow> int \<Rightarrow> int \<Rightarrow> int"
  goal :: hash_entry
  state_ID_to_coord_table :: "hash_entry list"

section \<open>Motion validity: interpolation and collision checking\<close>

definition INT_MAX :: int where
  "INT_MAX = 2147483647"

text \<open>
  \<^verbatim>\<open>getJointDistanceIntegerMax\<close>: the sentinel \<^verbatim>\<open>INT_MAX\<close> for vectors of
  different sizes, otherwise the largest per-joint step count, joints 4 and 6
  measured by the shortest angular distance. The resolution \<open>delta\<close> is meant
  positive: the source divides by it without a test.
\<close>

definition joint_dist :: "(real \<Rightarrow> real \<Rightarrow> real) \<Rightarrow> real \<Rightarrow> config \<Rightarrow> config \<Rightarrow> nat \<Rightarrow> int" where
  "joint_dist sad delta angles1 angles2 i =
     (if i = 4 \<or> i = 6
      then \<lfloor>\<bar>sad (angles1 ! i) (angles2 ! i)\<bar> / delta\<rfloor>
      else \<lfloor>\<bar>angles2 ! i - angles1 ! i\<bar> / delta\<rfloor>)"

definition getJointDistanceIntegerMax ::
  "(real \<Rightarrow> real \<Rightarrow> real) \<Rightarrow> config \<Rightarrow> config \<Rightarrow> real \<Rightarrow> int" where
  "getJointDistanceIntegerMax sad angles1 angles2 delta =
     (if length angles1 \<noteq> length angles2 then INT_MAX
      else fold (\<lambda>i max_dist.
                   let dist = joint_dist sad delta angles1 angles2 i
                   in if dist > max_dist then dist else max_dist)
                [0 ..< length angles1] 0)"

text \<open>
  The loop of \<^verbatim>\<open>interpolateAndCollisionCheck\<close>, from index \<open>i\<close> on. The result is
  the returned flag, the vector \<^verbatim>\<open>state_values\<close> as the call leaves it, and the
  number of collision checks made so far (the increments of
  \<^verbatim>\<open>planning_statistics_.coll_checks_\<close>).
\<close>

function interpolate_loop ::
  "env \<Rightarrow> config \<Rightarrow> config \<Rightarrow> int \<Rightarrow> int \<Rightarrow> config list \<Rightarrow> nat \<Rightarrow> bool \<times> config list \<times> nat" where
  "interpolate_loop e angles1 angles2 maximum_moves i state_values checks =
     (if i < maximum_moves then
        (let rs_temp = interpolate e angles1 angles2
                         ((1 / real_of_int maximum_moves) * real_of_int i)
         in if i \<noteq> maximum_moves - 1 then
              (if checkCollision e rs_temp then (False, state_values, checks + 1)
               else interpolate_loop e angles1 angles2 maximum_moves (i + 1)
                      (state_values @ [rs_temp]) (checks + 1))
            else interpolate_loop e angles1 angles2 maximum_moves (i + 1)
                   (state_values @ [rs_temp]) checks)
      else (True, state_values, checks))"
  by pat_completeness auto
termination
  by (relation "measure (\<lambda>(e, a1, a2, m, i, sv, c). nat (m - i))") auto

definition interpolateAndCollisionCheck ::
  "env \<Rightarrow> config \<Rightarrow> config \<Rightarrow> bool \<times> config list \<times> nat" where
  "interpolateAndCollisionCheck e angles1 angles2 =
     (if checkCollision e angles2 then (False, [], 1)
      else
        (let maximum_moves =
               getJointDistanceIntegerMax (shortest_angular_distance e) angles1 angles2
                 (interpolation_distance (params e))
         in interpolate_loop e angles1 angles2 maximum_moves 1 [] 1))"

section \<open>Trajectory shortcutting\<close>

text \<open>
  The local variables of \<^verbatim>\<open>attemptShortcut\<close>. The indices are
  \<^verbatim>\<open>unsigned int\<close> in the source and natural numbers here: they never exceed
  the number of waypoints, and \<open>last_good_start_ind \<le> last_good_end_ind\<close> holds
  throughout, so neither the increments nor the subtraction wrap for a
  trajectory of fewer than \<open>2^32\<close> points.
\<close>

record sc_state =
  last_point_ind :: nat
  current_point_ind :: nat
  last_good_start_ind :: nat
  last_good_end_ind :: nat
  traj_out :: "config list"
  last_good_segment_values :: "config list"

text \<open>
  The first half of the loop body: the validity check of the span from
  \<open>last_point_ind\<close> to \<open>current_point_ind\<close> and the two branches on its result.
  An index past the end of \<^verbatim>\<open>traj_in.points\<close> is the error \<open>OutOfBounds\<close>.
\<close>

definition shortcut_try :: "env \<Rightarrow> config list \<Rightarrow> sc_state \<Rightarrow> error + sc_state" where
  "shortcut_try e traj_in s =
     (if length traj_in \<le> last_point_ind s \<or> length traj_in \<le> current_point_ind s
      then Inl OutOfBounds
      else
        (let start_point = traj_in ! last_point_ind s;
             end_point = traj_in ! current_point_ind s;
             r = interpolateAndCollisionCheck e start_point end_point;
             segment_values = fst (snd r)
         in if fst r then
              Inr (s\<lparr>last_good_start_ind := last_point_ind s,
                      last_good_end_ind := current_point_ind s,
                      last_good_segment_values := segment_values,
                      current_point_ind := current_point_ind s + 1\<rparr>)
            else if last_good_end_ind s - last_good_start_ind s = 1 then
              (if length traj_in \<le> last_good_end_ind s then Inl OutOfBounds
               else
                 Inr (s\<lparr>traj_out := traj_out s @ [traj_in ! last_good_end_ind s],
                         last_good_start_ind := last_good_end_ind s,
                         last_point_ind := last_good_end_ind s,
                         current_point_ind := last_good_end_ind s + 1,
                         last_good_segment_values := []\<rparr>))
            else
              Inr (s\<lparr>traj_out := traj_out s @ last_good_segment_values s,
                      last_good_start_ind := last_good_end_ind s,
                      last_point_ind := last_good_end_ind s,
                      current_point_ind := last_good_end_ind s + 1,
                      last_good_segment_values := []\<rparr>)))"

text \<open>
  The \<^verbatim>\<open>while (1)\<close> loop. It has no bound in the source, so not returning is the
  value \<open>None\<close>. The second half of the body is the exit test: pending samples
  are flushed and the last input waypoint is appended.
\<close>

partial_function (option) shortcut_loop ::
  "env \<Rightarrow> config list \<Rightarrow> sc_state \<Rightarrow> (error + config list) option" where
  "shortcut_loop e traj_in s =
     (case shortcut_try e traj_in s of
        Inl err \<Rightarrow> Some (Inl err)
      | Inr s' \<Rightarrow>
          if current_point_ind s' \<ge> length traj_in then
            (if traj_in = [] then Some (Inl OutOfBounds)
             else Some (Inr (traj_out s' @ last_good_segment_values s' @ [last traj_in])))
          else shortcut_loop e traj_in s')"

definition shortcut_init :: "config list \<Rightarrow> sc_state" where
  "shortcut_init traj_in =
     \<lparr>last_point_ind = 0, current_point_ind = 1,
      last_good_start_ind = 0, last_good_end_ind = 1,
      traj_out = [hd traj_in], last_good_segment_values = []\<rparr>"

text \<open>
  \<^verbatim>\<open>attemptShortcut\<close>, for an output trajectory that is another object than the
  input: a single waypoint is returned as it is; on the empty trajectory
  \<^verbatim>\<open>traj_in.points.front()\<close> reads out of bounds. The result is the list of
  points of \<^verbatim>\<open>traj_out\<close>.
\<close>

definition attemptShortcut :: "env \<Rightarrow> config list \<Rightarrow> (error + config list) option" where
  "attemptShortcut e traj_in =
     (if length traj_in = 1 then Some (Inr traj_in)
      else if traj_in = [] then Some (Inl OutOfBounds)
      else shortcut_loop e traj_in (shortcut_init traj_in))"

section \<open>Trajectory reconstruction from state identifiers\<close>

text \<open>
  \<^verbatim>\<open>traj.points.resize(n)\<close> keeps the points the trajectory holds on entry and
  pads with default points, whose positions are empty.
\<close>

definition resize_points :: "nat \<Rightarrow> config list \<Rightarrow> config list" where
  "resize_points n pts = take n pts @ replicate (n - length pts) []"

text \<open>
  \<^verbatim>\<open>populateTrajectoryFromStateIDSequence\<close>. The points are resized to one per
  identifier and filled in order. The only guard is the upper one; a negative
  identifier converts to an index far past the end of the table, which is the
  error \<open>OutOfBounds\<close>. The result is the returned flag and the points as the
  call leaves them.
\<close>

function populate_loop ::
  "hash_entry list \<Rightarrow> int list \<Rightarrow> nat \<Rightarrow> config list \<Rightarrow> error + bool \<times> config list" where
  "populate_loop tbl state_ids i points =
     (if i < length state_ids then
        (if state_ids ! i > int (length tbl) - 1 then Inr (False, points)
         else if state_ids ! i < 0 then Inl OutOfBounds
         else populate_loop tbl state_ids (i + 1)
                (points[i := angles (tbl ! nat (state_ids ! i))]))
      else Inr (True, points))"
  by pat_completeness auto
termination
  by (relation "measure (\<lambda>(tbl, ids, i, pts). length ids - i)") auto

definition populateTrajectoryFromStateIDSequence ::
  "env \<Rightarrow> int list \<Rightarrow> config list \<Rightarrow> error + bool \<times> config list" where
  "populateTrajectoryFromStateIDSequence e state_ids traj =
     populate_loop (state_ID_to_coord_table e) state_ids 0
       (resize_points (length state_ids) traj)"

section \<open>The end-effector heuristic\<close>

definition INT_MIN :: int where
  "INT_MIN = - 2147483648"

text \<open>
  The result of a computation of type \<^verbatim>\<open>int\<close> whose exact value is \<open>v\<close>: signed
  overflow is undefined behaviour.
\<close>

definition to_int :: "int \<Rightarrow> error + int" where
  "to_int v = (if INT_MIN \<le> v \<and> v \<le> INT_MAX then Inr v else Inl IntOverflow)"

text \<open>
  The conversion of a \<^verbatim>\<open>double\<close> to \<^verbatim>\<open>int\<close> truncates toward zero, and is
  undefined when the truncated value does not fit.
\<close>

definition trunc_real :: "real \<Rightarrow> int" where
  "trunc_real r = (if r < 0 then \<lceil>r\<rceil> else \<lfloor>r\<rfloor>)"

definition cast_int :: "real \<Rightarrow> error + int" where
  "cast_int r = to_int (trunc_real r)"

definition getEuclideanDistance :: "real \<Rightarrow> real \<Rightarrow> real \<Rightarrow> real \<Rightarrow> real \<Rightarrow> real \<Rightarrow> real" where
  "getEuclideanDistance x1 y1 z1 x2 y2 z2 =
     sqrt ((x1 - x2) * (x1 - x2) + (y1 - y2) * (y1 - y2) + (z1 - z2) * (z1 - z2))"

definition getEndEffectorHeuristic :: "env \<Rightarrow> int \<Rightarrow> int \<Rightarrow> int \<Rightarrow> error + int" where
  "getEndEffectorHeuristic e x y z =
     (if use_bfs (params e) then to_int (bfs_getDistance e x y z * cost_per_cell (params e))
      else
        (let dist = getEuclideanDistance (real_of_int x) (real_of_int y) (real_of_int z)
                      (real_of_int (fst (xyz (goal e))))
                      (real_of_int (fst (snd (xyz (goal e)))))
                      (real_of_int (snd (snd (xyz (goal e)))))
         in cast_int (dist * field_resolution (params e) * cost_per_meter (params e))))"

section \<open>Setting up a motion plan\<close>









section \<open>Auxiliary notions for the statements\<close>

text \<open>The \<open>k\<close>-th interpolated state of a motion with \<open>m\<close> steps.\<close>

definition sample :: "env \<Rightarrow> config \<Rightarrow> config \<Rightarrow> int \<Rightarrow> int \<Rightarrow> config" where
  "sample e a1 a2 m k = interpolate e a1 a2 ((1 / real_of_int m) * real_of_int k)"

text \<open>
  The number the Euclidean mode of the heuristic truncates: the straight-line
  cell distance to the goal cell, scaled by the resolution and the cost per
  meter.
\<close>

definition scaled_distance :: "env \<Rightarrow> int \<Rightarrow> int \<Rightarrow> int \<Rightarrow> real" where
  "scaled_distance e x y z =
     getEuclideanDistance (real_of_int x) (real_of_int y) (real_of_int z)
       (real_of_int (fst (xyz (goal e)))) (real_of_int (fst (snd (xyz (goal e)))))
       (real_of_int (snd (snd (xyz (goal e)))))
     * field_resolution (params e) * cost_per_meter (params e)"

section \<open>Example environments\<close>

text \<open>
  Modelled from the spec: the robot model's \<^verbatim>\<open>interpolate\<close> is library code;
  the spec describes it as the linear interpolation of the joint values at the
  given fraction. It instantiates the \<open>interpolate\<close> field in the examples.
\<close>

definition linear_interpolate :: "config \<Rightarrow> config \<Rightarrow> real \<Rightarrow> config" where
  "linear_interpolate a b t = map2 (\<lambda>x y. x + t * (y - x)) a b"

definition example_params :: SBPLPlanningParams where
  "example_params =
     \<lparr>field_x = 2, field_y = 2, field_z = 2,
      field_origin_x = 0, field_origin_y = 0, field_origin_z = 0,
      field_resolution = 1 / 2, use_bfs = False, cost_per_cell = 1,
      cost_per_meter = 1, interpolation_distance = 1\<rparr>"

text \<open>
  A one-joint arm whose tip sits at \<open>(q, 0, 0)\<close> for the joint value \<open>q\<close>, with
  the goal cell at the origin and a table of two states; the collision oracle
  is the parameter.
\<close>

definition example_table :: "hash_entry list" where
  "example_table =
     [\<lparr>stateID = 0, coord = [4], angles = [2], xyz = (4, 0, 0)\<rparr>,
      \<lparr>stateID = 1, coord = [0], angles = [0], xyz = (0, 0, 0)\<rparr>]"

definition example_env :: "(config \<Rightarrow> bool) \<Rightarrow> env" where
  "example_env coll =
     \<lparr>params = example_params,
      checkCollision = coll,
      interpolate = linear_interpolate,
      shortest_angular_distance = (\<lambda>a b. b - a),
      getGlobalLinkTransform = (\<lambda>c. (sum_list c, 0, 0)),
      setJointPositions = (\<lambda>c name v. if name = ''joint0'' then c[0 := v] else c),
      convertJointAnglesToCoord = map (\<lambda>a. \<lfloor>a * 2\<rfloor>),
      bfs_getDistance = (\<lambda>x y z. \<bar>x\<bar> + \<bar>y\<bar> + \<bar>z\<bar>),
      goal = \<lparr>stateID = 1, coord = [0], angles = [0], xyz = (0, 0, 0)\<rparr>,
      state_ID_to_coord_table = example_table\<rparr>"

definition env_free :: env where
  "env_free = example_env (\<lambda>c. False)"

definition env_blocked :: env where
  "env_blocked = example_env (\<lambda>c. True)"

definition env_blocked_at_1 :: env where
  "env_blocked_at_1 = example_env (\<lambda>c. c = [1])"

definition env_blocked_at_2 :: env where
  "env_blocked_at_2 = example_env (\<lambda>c. c = [2])"

text \<open>Variants of the free environment with other cost factors.\<close>

definition env_negative_cost :: env where
  "env_negative_cost = env_free\<lparr>params := example_params\<lparr>cost_per_meter := - 1\<rparr>\<rparr>"

definition env_huge_cost :: env where
  "env_huge_cost = env_free\<lparr>params := example_params\<lparr>cost_per_meter := 4294967296\<rparr>\<rparr>"

definition env_bfs :: env where
  "env_bfs = env_free\<lparr>params := example_params\<lparr>use_bfs := True, cost_per_cell := 3\<rparr>\<rparr>"

definition env_bfs_negative_cost :: env where
  "env_bfs_negative_cost =
     env_free\<lparr>params := example_params\<lparr>use_bfs := True, cost_per_cell := - 1\<rparr>\<rparr>"


section \<open>Properties of the interpolation loop\<close>

declare interpolate_loop.simps [simp del]

lemma iloop_stop: "\<not> i < m \<Longrightarrow> interpolate_loop e a1 a2 m i sv ch = (True, sv, ch)"
  by (simp add: interpolate_loop.simps [of e a1 a2 m i])

lemma iloop_last:
  "i = m - 1 \<Longrightarrow> interpolate_loop e a1 a2 m i sv ch = (True, sv @ [sample e a1 a2 m i], ch)"
proof -
  assume i: "i = m - 1"
  then have "interpolate_loop e a1 a2 m i sv ch =
             interpolate_loop e a1 a2 m (i + 1) (sv @ [sample e a1 a2 m i]) ch"
    by (subst interpolate_loop.simps) (simp add: sample_def)
  also have "\<dots> = (True, sv @ [sample e a1 a2 m i], ch)"
    using i by (simp add: iloop_stop)
  finally show ?thesis .
qed

lemma iloop_hit:
  "i < m - 1 \<Longrightarrow> checkCollision e (sample e a1 a2 m i) \<Longrightarrow>
   interpolate_loop e a1 a2 m i sv ch = (False, sv, ch + 1)"
  by (simp add: interpolate_loop.simps [of e a1 a2 m i] sample_def)

lemma iloop_step:
  "i < m - 1 \<Longrightarrow> \<not> checkCollision e (sample e a1 a2 m i) \<Longrightarrow>
   interpolate_loop e a1 a2 m i sv ch =
   interpolate_loop e a1 a2 m (i + 1) (sv @ [sample e a1 a2 m i]) (ch + 1)"
  by (simp add: interpolate_loop.simps [of e a1 a2 m i] sample_def)

lemma iloop_valid_iff:
  "fst (interpolate_loop e a1 a2 m i sv ch) \<longleftrightarrow>
     (\<forall>k. i \<le> k \<and> k < m - 1 \<longrightarrow> \<not> checkCollision e (sample e a1 a2 m k))"
proof (induction "nat (m - i)" arbitrary: i sv ch)
  case 0
  then have "\<not> i < m" by simp
  then show ?case by (auto simp: iloop_stop)
next
  case (Suc n)
  then have lt: "i < m" by simp
  show ?case
  proof (cases "i = m - 1")
    case True
    then show ?thesis by (auto simp: iloop_last)
  next
    case False
    with lt have lt1: "i < m - 1" by simp
    have n: "n = nat (m - (i + 1))" using Suc(2) by simp
    have split: "(\<forall>k. i \<le> k \<and> k < m - 1 \<longrightarrow> \<not> checkCollision e (sample e a1 a2 m k)) \<longleftrightarrow>
             (\<not> checkCollision e (sample e a1 a2 m i) \<and>
              (\<forall>k. i + 1 \<le> k \<and> k < m - 1 \<longrightarrow> \<not> checkCollision e (sample e a1 a2 m k)))"
      (is "?L \<longleftrightarrow> ?R")
    proof
      assume ?L with lt1 show ?R by auto
    next
      assume r: ?R
      show ?L
      proof (intro allI impI)
        fix k assume "i \<le> k \<and> k < m - 1"
        then have "k = i \<or> (i + 1 \<le> k \<and> k < m - 1)" by auto
        with r show "\<not> checkCollision e (sample e a1 a2 m k)" by auto
      qed
    qed
    show ?thesis
    proof (cases "checkCollision e (sample e a1 a2 m i)")
      case True
      with lt1 show ?thesis unfolding split by (simp add: iloop_hit)
    next
      case False
      with lt1 Suc(1) [OF n] show ?thesis unfolding split by (simp add: iloop_step)
    qed
  qed
qed

lemma iloop_samples:
  "fst (interpolate_loop e a1 a2 m i sv ch) \<Longrightarrow>
   fst (snd (interpolate_loop e a1 a2 m i sv ch)) = sv @ map (sample e a1 a2 m) [i .. m - 1]"
proof (induction "nat (m - i)" arbitrary: i sv ch)
  case 0
  then have "\<not> i < m" by simp
  then show ?case by (auto simp: iloop_stop)
next
  case (Suc n)
  then have lt: "i < m" by simp
  show ?case
  proof (cases "i = m - 1")
    case True
    then show ?thesis by (auto simp: iloop_last)
  next
    case False
    with lt have lt1: "i < m - 1" by simp
    have n: "n = nat (m - (i + 1))" using Suc(2) by simp
    have nc: "\<not> checkCollision e (sample e a1 a2 m i)"
      using Suc(3) lt1 by (auto simp: iloop_valid_iff)
    have up: "[i .. m - 1] = i # [i + 1 .. m - 1]"
      using lt1 by (simp add: upto_rec1)
    from Suc(3) have "fst (interpolate_loop e a1 a2 m (i + 1) (sv @ [sample e a1 a2 m i]) (ch + 1))"
      using lt1 nc by (simp add: iloop_step)
    from Suc(1) [OF n this] show ?thesis
      using lt1 nc by (simp add: iloop_step up)
  qed
qed

lemma iloop_checks:
  "fst (interpolate_loop e a1 a2 m i sv ch) \<Longrightarrow>
   snd (snd (interpolate_loop e a1 a2 m i sv ch)) = ch + nat (m - 1 - i)"
proof (induction "nat (m - i)" arbitrary: i sv ch)
  case 0
  then have "\<not> i < m" by simp
  then show ?case by (auto simp: iloop_stop)
next
  case (Suc n)
  then have lt: "i < m" by simp
  show ?case
  proof (cases "i = m - 1")
    case True
    then show ?thesis by (auto simp: iloop_last)
  next
    case False
    with lt have lt1: "i < m - 1" by simp
    have n: "n = nat (m - (i + 1))" using Suc(2) by simp
    have nc: "\<not> checkCollision e (sample e a1 a2 m i)"
      using Suc(3) lt1 by (auto simp: iloop_valid_iff)
    from Suc(3) have "fst (interpolate_loop e a1 a2 m (i + 1) (sv @ [sample e a1 a2 m i]) (ch + 1))"
      using lt1 nc by (simp add: iloop_step)
    from Suc(1) [OF n this] show ?thesis
      using lt1 nc by (simp add: iloop_step)
  qed
qed

section \<open>Properties of the shortcutting loop\<close>

subsection \<open>One iteration\<close>

lemma try_ok:
  assumes "last_point_ind s < length inp" "current_point_ind s < length inp"
    and "fst (interpolateAndCollisionCheck e (inp ! last_point_ind s) (inp ! current_point_ind s))"
  shows "shortcut_try e inp s =
         Inr (s\<lparr>last_good_start_ind := last_point_ind s,
                 last_good_end_ind := current_point_ind s,
                 last_good_segment_values :=
                   fst (snd (interpolateAndCollisionCheck e (inp ! last_point_ind s)
                               (inp ! current_point_ind s))),
                 current_point_ind := current_point_ind s + 1\<rparr>)"
  using assms by (simp add: shortcut_try_def Let_def)



text \<open>The possible results of one iteration, for case analysis.\<close>

lemma try_cases:
  assumes "shortcut_try e inp s = Inr s'"
  obtains
    (ok) "last_point_ind s < length inp" "current_point_ind s < length inp"
      "fst (interpolateAndCollisionCheck e (inp ! last_point_ind s) (inp ! current_point_ind s))"
      "s' = s\<lparr>last_good_start_ind := last_point_ind s,
                 last_good_end_ind := current_point_ind s,
                 last_good_segment_values :=
                   fst (snd (interpolateAndCollisionCheck e (inp ! last_point_ind s)
                               (inp ! current_point_ind s))),
                 current_point_ind := current_point_ind s + 1\<rparr>"
  | (adjacent) "last_point_ind s < length inp" "current_point_ind s < length inp"
      "\<not> fst (interpolateAndCollisionCheck e (inp ! last_point_ind s) (inp ! current_point_ind s))"
      "last_good_end_ind s - last_good_start_ind s = 1" "last_good_end_ind s < length inp"
      "s' = s\<lparr>traj_out := traj_out s @ [inp ! last_good_end_ind s],
                 last_good_start_ind := last_good_end_ind s,
                 last_point_ind := last_good_end_ind s,
                 current_point_ind := last_good_end_ind s + 1,
                 last_good_segment_values := []\<rparr>"
  | (span) "last_point_ind s < length inp" "current_point_ind s < length inp"
      "\<not> fst (interpolateAndCollisionCheck e (inp ! last_point_ind s) (inp ! current_point_ind s))"
      "last_good_end_ind s - last_good_start_ind s \<noteq> 1"
      "s' = s\<lparr>traj_out := traj_out s @ last_good_segment_values s,
                 last_good_start_ind := last_good_end_ind s,
                 last_point_ind := last_good_end_ind s,
                 current_point_ind := last_good_end_ind s + 1,
                 last_good_segment_values := []\<rparr>"
  using assms unfolding shortcut_try_def Let_def
  by (auto split: if_splits)

subsection \<open>An invariant rule for the loop\<close>

lemma shortcut_loop_rule:
  assumes run: "shortcut_loop e inp s = Some r"
    and init: "I s"
    and keep: "\<And>t t'. I t \<Longrightarrow> shortcut_try e inp t = Inr t' \<Longrightarrow>
                 current_point_ind t' < length inp \<Longrightarrow> I t'"
    and exit: "\<And>t t'. I t \<Longrightarrow> shortcut_try e inp t = Inr t' \<Longrightarrow>
                 length inp \<le> current_point_ind t' \<Longrightarrow> inp \<noteq> [] \<Longrightarrow>
                 Q (Inr (traj_out t' @ last_good_segment_values t' @ [last inp]))"
    and fault: "\<And>t err. I t \<Longrightarrow> shortcut_try e inp t = Inl err \<Longrightarrow> Q (Inl err)"
    and empty: "inp = [] \<Longrightarrow> Q (Inl OutOfBounds)"
  shows "Q r"
proof -
  have "e = e \<longrightarrow> inp = inp \<longrightarrow> I s \<longrightarrow> Q r"
  proof (rule shortcut_loop.raw_induct
      [where P = "\<lambda>a b c d. a = e \<longrightarrow> b = inp \<longrightarrow> I c \<longrightarrow> Q d", OF _ run], goal_cases)
    case (1 f a b c d)
    show ?case
    proof (intro impI)
      assume eq: "a = e" "b = inp" and inv: "I c"
      show "Q d"
      proof (cases "shortcut_try e inp c")
        case (Inl err)
        with 1(2) eq have "d = Inl err" by simp
        with fault [OF inv Inl] show ?thesis by simp
      next
        case (Inr t')
        show ?thesis
        proof (cases "length inp \<le> current_point_ind t'")
          case True
          show ?thesis
          proof (cases "inp = []")
            case True
            with 1(2) eq Inr \<open>length inp \<le> current_point_ind t'\<close> have "d = Inl OutOfBounds" by simp
            with empty [OF True] show ?thesis by simp
          next
            case False
            with 1(2) eq Inr True
            have "d = Inr (traj_out t' @ last_good_segment_values t' @ [last inp])" by simp
            with exit [OF inv Inr True False] show ?thesis by simp
          qed
        next
          case False
          then have lt: "current_point_ind t' < length inp" by simp
          with 1(2) eq Inr have "f e inp t' = Some d" by simp
          from 1(1) [OF this] keep [OF inv Inr lt] show ?thesis by simp
        qed
      qed
    qed
  qed
  with init show ?thesis by simp
qed

subsection \<open>A state that the body maps to itself\<close>

lemma shortcut_loop_stuck:
  assumes fx: "shortcut_try e inp s = Inr s" and lt: "current_point_ind s < length inp"
  shows "shortcut_loop e inp s = None"
proof (rule ccontr)
  assume "shortcut_loop e inp s \<noteq> None"
  then obtain r where run: "shortcut_loop e inp s = Some r" by auto
  have "False"
  proof (rule shortcut_loop_rule [where I = "\<lambda>t. t = s" and Q = "\<lambda>_. False", OF run])
    show "s = s" by simp
  next
    fix t t' assume "t = s" "shortcut_try e inp t = Inr t'"
    with fx show "t' = s" by simp
  next
    fix t t' assume "t = s" "shortcut_try e inp t = Inr t'" "length inp \<le> current_point_ind t'"
    with fx lt show False by simp
  next
    fix t err assume "t = s" "shortcut_try e inp t = Inl err"
    with fx show False by simp
  next
    assume "inp = []" with lt show False by simp
  qed
  then show False .
qed

subsection \<open>Termination when the adjacent pairs after the first are connected\<close>


subsection \<open>Everything reachable from the first waypoint\<close>

lemma shortcut_loop_all_valid:
  assumes ok: "\<And>j. 0 < j \<Longrightarrow> j < length inp \<Longrightarrow>
                 fst (interpolateAndCollisionCheck e (inp ! 0) (inp ! j))"
  shows "last_point_ind s = 0 \<Longrightarrow> 0 < current_point_ind s \<Longrightarrow> current_point_ind s < length inp \<Longrightarrow>
         shortcut_loop e inp s =
         Some (Inr (traj_out s @ fst (snd (interpolateAndCollisionCheck e (inp ! 0) (last inp)))
                      @ [last inp]))"
proof (induction "length inp - current_point_ind s" arbitrary: s rule: less_induct)
  case less
  let ?n = "length inp"
  have "0 < ?n" using less.prems(3) by linarith
  then have ne: "inp \<noteq> []" by simp
  have l: "last_point_ind s < ?n" using less.prems by linarith
  have v: "fst (interpolateAndCollisionCheck e (inp ! last_point_ind s) (inp ! current_point_ind s))"
    using ok [of "current_point_ind s"] less.prems by simp
  let ?s' = "s\<lparr>last_good_start_ind := last_point_ind s,
               last_good_end_ind := current_point_ind s,
               last_good_segment_values :=
                 fst (snd (interpolateAndCollisionCheck e (inp ! last_point_ind s)
                             (inp ! current_point_ind s))),
               current_point_ind := current_point_ind s + 1\<rparr>"
  have t: "shortcut_try e inp s = Inr ?s'" using try_ok [OF l less.prems(3) v] .
  show ?case
  proof (cases "?n \<le> current_point_ind ?s'")
    case True
    with less.prems have "current_point_ind s = ?n - 1" by simp
    then have "inp ! current_point_ind s = last inp" using ne by (simp add: last_conv_nth)
    then show ?thesis using t ne True less.prems(1) by (subst shortcut_loop.simps) simp
  next
    case False
    have "shortcut_loop e inp ?s' =
          Some (Inr (traj_out ?s' @ fst (snd (interpolateAndCollisionCheck e (inp ! 0) (last inp)))
                      @ [last inp]))"
      by (rule less.hyps) (use less.prems False in auto)
    then show ?thesis using t False by (subst shortcut_loop.simps) simp
  qed
qed

subsection \<open>Facts about every output\<close>


lemma shortcut_loop_no_fault:
  assumes run: "shortcut_loop e inp s = Some r"
    and init: "last_point_ind s < current_point_ind s" "current_point_ind s < length inp"
      "last_good_end_ind s \<le> current_point_ind s"
  shows "\<exists>out. r = Inr out"
proof (rule shortcut_loop_rule
    [where I = "\<lambda>t. last_point_ind t < current_point_ind t \<and> current_point_ind t < length inp \<and>
                     last_good_end_ind t \<le> current_point_ind t", OF run])
  show "last_point_ind s < current_point_ind s \<and> current_point_ind s < length inp \<and>
        last_good_end_ind s \<le> current_point_ind s" using init by simp
next
  fix t t'
  assume inv: "last_point_ind t < current_point_ind t \<and> current_point_ind t < length inp \<and>
          last_good_end_ind t \<le> current_point_ind t" and tr: "shortcut_try e inp t = Inr t'"
    and lt: "current_point_ind t' < length inp"
  from tr show "last_point_ind t' < current_point_ind t' \<and> current_point_ind t' < length inp \<and>
             last_good_end_ind t' \<le> current_point_ind t'"
    by (cases rule: try_cases) (use inv lt in auto)
next
  fix t err
  assume "last_point_ind t < current_point_ind t \<and> current_point_ind t < length inp \<and>
          last_good_end_ind t \<le> current_point_ind t" "shortcut_try e inp t = Inl err"
  then have False
    by (auto simp: shortcut_try_def Let_def split: if_splits)
  then show "\<exists>out. Inl err = Inr out" ..
next
  assume "inp = []" with init show "\<exists>out. Inl OutOfBounds = Inr out" by simp
qed simp


section \<open>Properties of the validity check\<close>

text \<open>
  The check accepts a motion exactly when the destination and the samples
  \<open>1, \<dots>, m - 2\<close> are free of collision: sample \<open>m - 1\<close> is not looked at.
\<close>

lemma interpolateAndCollisionCheck_valid_iff:
  "fst (interpolateAndCollisionCheck e a b) \<longleftrightarrow>
     \<not> checkCollision e b \<and>
     (\<forall>k. 1 \<le> k \<and> k < getJointDistanceIntegerMax (shortest_angular_distance e) a b
                        (interpolation_distance (params e)) - 1 \<longrightarrow>
          \<not> checkCollision e
              (sample e a b (getJointDistanceIntegerMax (shortest_angular_distance e) a b
                               (interpolation_distance (params e))) k))"
  by (simp add: interpolateAndCollisionCheck_def iloop_valid_iff)

lemma no_steps_no_samples:
  assumes "fst (interpolateAndCollisionCheck e a b)"
    and "getJointDistanceIntegerMax (shortest_angular_distance e) a b
           (interpolation_distance (params e)) \<le> 1"
  shows "fst (snd (interpolateAndCollisionCheck e a b)) = []"
proof -
  let ?m = "getJointDistanceIntegerMax (shortest_angular_distance e) a b
              (interpolation_distance (params e))"
  have nc: "\<not> checkCollision e b"
    using assms(1) by (auto simp: interpolateAndCollisionCheck_def split: if_splits)
  then have "interpolateAndCollisionCheck e a b = interpolate_loop e a b ?m 1 [] 1"
    by (simp add: interpolateAndCollisionCheck_def)
  also have "\<dots> = (True, [], 1)" using assms(2) by (simp add: iloop_stop)
  finally show ?thesis by simp
qed

lemma mismatch_runs_all_steps:
  assumes len: "length a1 \<noteq> length a2" and free: "\<And>c. \<not> checkCollision e c"
  shows "interpolateAndCollisionCheck e a1 a2 =
         (True, map (sample e a1 a2 INT_MAX) [1 .. INT_MAX - 1], 2147483646)"
proof -
  let ?r = "interpolate_loop e a1 a2 INT_MAX 1 [] 1"
  have r: "interpolateAndCollisionCheck e a1 a2 = ?r"
    using len free by (simp add: interpolateAndCollisionCheck_def getJointDistanceIntegerMax_def)
  have v: "fst ?r" using free by (simp add: iloop_valid_iff)
  have "fst (snd ?r) = map (sample e a1 a2 INT_MAX) [1 .. INT_MAX - 1]"
    using iloop_samples [OF v] by simp
  moreover have "snd (snd ?r) = 2147483646"
    using iloop_checks [OF v] by (simp add: INT_MAX_def)
  ultimately have "?r = (True, map (sample e a1 a2 INT_MAX) [1 .. INT_MAX - 1], 2147483646)"
    using v by (cases ?r) simp
  with r show ?thesis by simp
qed

section \<open>Properties of the reconstruction loop\<close>

declare populate_loop.simps [simp del]

lemma populate_in_range:
  assumes rng: "\<forall>j. j < length ids \<longrightarrow> 0 \<le> ids ! j \<and> ids ! j < int (length tbl)"
  shows "length pts = length ids \<Longrightarrow> i \<le> length ids \<Longrightarrow>
         populate_loop tbl ids i pts =
         Inr (True, take i pts @ map (\<lambda>k. angles (tbl ! nat k)) (drop i ids))"
proof (induction "length ids - i" arbitrary: i pts)
  case 0
  then show ?case by (simp add: populate_loop.simps [of tbl ids i])
next
  case (Suc n)
  then have lt: "i < length ids" by simp
  with rng have r: "0 \<le> ids ! i" "ids ! i < int (length tbl)" by auto
  let ?v = "angles (tbl ! nat (ids ! i))"
  have "populate_loop tbl ids i pts = populate_loop tbl ids (i + 1) (pts[i := ?v])"
    using lt r by (subst populate_loop.simps) simp
  also have "\<dots> = Inr (True, take (i + 1) (pts[i := ?v]) @
                           map (\<lambda>k. angles (tbl ! nat k)) (drop (i + 1) ids))"
    by (rule Suc.hyps(1)) (use Suc lt in auto)
  also have "take (i + 1) (pts[i := ?v]) = take i pts @ [?v]"
    using lt Suc.prems(1) by (simp add: take_Suc_conv_app_nth)
  also have "(take i pts @ [?v]) @ map (\<lambda>k. angles (tbl ! nat k)) (drop (i + 1) ids)
             = take i pts @ map (\<lambda>k. angles (tbl ! nat k)) (drop i ids)"
    using lt by (simp add: Cons_nth_drop_Suc [symmetric])
  finally show ?case .
qed

lemma populate_too_large:
  assumes k: "k < length ids" and big: "ids ! k > int (length tbl) - 1"
    and rng: "\<forall>j. j < k \<longrightarrow> 0 \<le> ids ! j \<and> ids ! j < int (length tbl)"
  shows "i \<le> k \<Longrightarrow> \<exists>pts'. populate_loop tbl ids i pts = Inr (False, pts')"
proof (induction "k - i" arbitrary: i pts)
  case 0
  then have "i = k" by simp
  with k big show ?case by (subst populate_loop.simps) simp
next
  case (Suc n)
  then have lt: "i < k" by simp
  with rng have r: "0 \<le> ids ! i" "ids ! i < int (length tbl)" by auto
  have "populate_loop tbl ids i pts =
        populate_loop tbl ids (i + 1) (pts[i := angles (tbl ! nat (ids ! i))])"
    using lt k r by (subst populate_loop.simps) simp
  moreover have "\<exists>pts'. populate_loop tbl ids (i + 1) (pts[i := angles (tbl ! nat (ids ! i))])
                   = Inr (False, pts')"
    by (rule Suc.hyps(1)) (use Suc lt in auto)
  ultimately show ?case by simp
qed

lemma populate_negative:
  assumes k: "k < length ids" and neg: "ids ! k < 0"
    and rng: "\<forall>j. j < k \<longrightarrow> 0 \<le> ids ! j \<and> ids ! j < int (length tbl)"
  shows "i \<le> k \<Longrightarrow> populate_loop tbl ids i pts = Inl OutOfBounds"
proof (induction "k - i" arbitrary: i pts)
  case 0
  then have "i = k" by simp
  with k neg show ?case by (subst populate_loop.simps) simp
next
  case (Suc n)
  then have lt: "i < k" by simp
  with rng have r: "0 \<le> ids ! i" "ids ! i < int (length tbl)" by auto
  have "populate_loop tbl ids i pts =
        populate_loop tbl ids (i + 1) (pts[i := angles (tbl ! nat (ids ! i))])"
    using lt k r by (subst populate_loop.simps) simp
  also have "\<dots> = Inl OutOfBounds"
    by (rule Suc.hyps(1)) (use Suc lt in auto)
  finally show ?case .
qed

text \<open>
  With identifiers that are all assigned, the reconstruction succeeds with one
  waypoint per identifier, carrying the stored joint angles; an identifier
  above the highest assigned one is reported by the flag.
\<close>

lemma populateTrajectory_assigned:
  assumes "\<forall>j. j < length state_ids \<longrightarrow>
             0 \<le> state_ids ! j \<and> state_ids ! j < int (length (state_ID_to_coord_table e))"
  shows "populateTrajectoryFromStateIDSequence e state_ids traj =
         Inr (True, map (\<lambda>k. angles (state_ID_to_coord_table e ! nat k)) state_ids)"
  unfolding populateTrajectoryFromStateIDSequence_def
  by (subst populate_in_range [OF assms]) (simp_all add: resize_points_def)

lemma populateTrajectory_too_large:
  assumes "k < length state_ids"
    and "state_ids ! k > int (length (state_ID_to_coord_table e)) - 1"
    and "\<forall>j. j < k \<longrightarrow>
           0 \<le> state_ids ! j \<and> state_ids ! j < int (length (state_ID_to_coord_table e))"
  shows "\<exists>pts. populateTrajectoryFromStateIDSequence e state_ids traj = Inr (False, pts)"
  unfolding populateTrajectoryFromStateIDSequence_def
  by (rule populate_too_large [OF assms]) simp

section \<open>Evaluations in the example environments\<close>

lemmas env_simps =
  env_free_def env_blocked_def env_blocked_at_1_def env_blocked_at_2_def
  env_negative_cost_def env_huge_cost_def env_bfs_def env_bfs_negative_cost_def
  example_env_def example_params_def

lemma steps_0_3: "getJointDistanceIntegerMax (\<lambda>a b. b - a) [0] [3] 1 = 3"
  by (simp add: getJointDistanceIntegerMax_def joint_dist_def Let_def)

lemma steps_0_2: "getJointDistanceIntegerMax (\<lambda>a b. b - a) [0] [2] 1 = 2"
  by (simp add: getJointDistanceIntegerMax_def joint_dist_def Let_def)

lemma steps_0_1: "getJointDistanceIntegerMax (\<lambda>a b. b - a) [0] [1] 1 = 1"
  by (simp add: getJointDistanceIntegerMax_def joint_dist_def Let_def)

lemma free_0_3: "interpolateAndCollisionCheck env_free [0] [3] = (True, [[1], [2]], 2)"
  by (simp add: interpolateAndCollisionCheck_def env_simps steps_0_3 interpolate_loop.simps
      linear_interpolate_def)

lemma free_0_1: "interpolateAndCollisionCheck env_free [0] [1] = (True, [], 1)"
  by (simp add: interpolateAndCollisionCheck_def env_simps steps_0_1 interpolate_loop.simps
      linear_interpolate_def)

lemma free_valid: "fst (interpolateAndCollisionCheck env_free a b)"
  by (simp add: interpolateAndCollisionCheck_def iloop_valid_iff env_simps)

lemma blocked_invalid: "interpolateAndCollisionCheck env_blocked a b = (False, [], 1)"
  by (simp add: interpolateAndCollisionCheck_def env_simps)

lemma blocked_at_1_0_1: "interpolateAndCollisionCheck env_blocked_at_1 [0] [1] = (False, [], 1)"
  by (simp add: interpolateAndCollisionCheck_def env_simps)

lemma run_free_0_3: "attemptShortcut env_free [[0], [3]] = Some (Inr [[0], [1], [2], [3]])"
  by (simp add: attemptShortcut_def shortcut_init_def shortcut_loop.simps shortcut_try_def free_0_3)

lemma run_free_0_1_3: "attemptShortcut env_free [[0], [1], [3]] = Some (Inr [[0], [1], [2], [3]])"
  by (simp add: attemptShortcut_def shortcut_init_def shortcut_loop.simps shortcut_try_def
      free_0_3 free_0_1)

section \<open>The claims\<close>

subsection \<open>C1: validity of the motions of the shortcut trajectory\<close>

text \<open>
  C1 fails on the code: when the failure branch commits a span of more than one
  step it copies the interior samples of the span but not its end waypoint,
  which the branch for an adjacent span and the exit both copy. Every adjacent
  pair of the trajectory \<open>[0], [1/2], [3/2], [3]\<close> passes the validity check and
  the motion from \<open>[0]\<close> to \<open>[3]\<close> is rejected, its sample \<open>[1]\<close> being in
  collision. The span from waypoint 0 to waypoint 2 is committed without a
  sample, waypoint 2 is dropped, and the output is \<open>[0], [3]\<close>: its only pair of
  consecutive waypoints is the rejected motion.
\<close>

theorem attemptShortcut_drops_span_end:
  "fst (interpolateAndCollisionCheck env_blocked_at_1 [0] [1 / 2]) \<and>
   fst (interpolateAndCollisionCheck env_blocked_at_1 [1 / 2] [3 / 2]) \<and>
   fst (interpolateAndCollisionCheck env_blocked_at_1 [3 / 2] [3]) \<and>
   \<not> fst (interpolateAndCollisionCheck env_blocked_at_1 [0] [3]) \<and>
   attemptShortcut env_blocked_at_1 [[0], [1 / 2], [3 / 2], [3]] = Some (Inr [[0], [3]])"
proof -
  have s1: "getJointDistanceIntegerMax (\<lambda>a b. b - a) [0] [1 / 2] 1 = 0"
    and s2: "getJointDistanceIntegerMax (\<lambda>a b. b - a) [1 / 2] [3 / 2] 1 = 1"
    and s3: "getJointDistanceIntegerMax (\<lambda>a b. b - a) [3 / 2] [3] 1 = 1"
    and s4: "getJointDistanceIntegerMax (\<lambda>a b. b - a) [0] [3 / 2] 1 = 1"
    by (simp_all add: getJointDistanceIntegerMax_def joint_dist_def Let_def)
  have c1: "interpolateAndCollisionCheck env_blocked_at_1 [0] [1 / 2] = (True, [], 1)"
    and c2: "interpolateAndCollisionCheck env_blocked_at_1 [1 / 2] [3 / 2] = (True, [], 1)"
    and c3: "interpolateAndCollisionCheck env_blocked_at_1 [3 / 2] [3] = (True, [], 1)"
    and c4: "interpolateAndCollisionCheck env_blocked_at_1 [0] [3 / 2] = (True, [], 1)"
    by (simp_all add: interpolateAndCollisionCheck_def env_simps s1 s2 s3 s4 interpolate_loop.simps)
  have c5: "interpolateAndCollisionCheck env_blocked_at_1 [0] [3] = (False, [], 2)"
    by (simp add: interpolateAndCollisionCheck_def env_simps steps_0_3 interpolate_loop.simps
        linear_interpolate_def)
  have "attemptShortcut env_blocked_at_1 [[0], [1 / 2], [3 / 2], [3]] = Some (Inr [[0], [3]])"
    by (simp add: attemptShortcut_def shortcut_init_def shortcut_loop.simps shortcut_try_def
        c1 c3 c4 c5)
  with c1 c2 c3 c5 show ?thesis by simp
qed

text \<open>
  An observation on inputs that are themselves invalid: the first adjacent pair
  is committed as it is when its check fails.
\<close>

lemma invalid_first_pair_example:
  "\<not> fst (interpolateAndCollisionCheck env_blocked_at_1 [0] [1]) \<and>
   attemptShortcut env_blocked_at_1 [[0], [1]] = Some (Inr [[0], [1], [1]])"
  by (simp add: attemptShortcut_def shortcut_init_def shortcut_loop.simps shortcut_try_def
      blocked_at_1_0_1)

subsection \<open>C2: termination of the shortcutter\<close>

text \<open>
  C2 fails on the code: when the validity checks of the first two adjacent pairs
  both fail, the shortcutter does not return. The first failure commits
  waypoint 1; the second failure leaves every index unchanged, and the loop
  repeats that iteration for ever.
\<close>

theorem attemptShortcut_diverges_on_two_failures:
  assumes len: "3 \<le> length inp"
    and f1: "\<not> fst (interpolateAndCollisionCheck e (inp ! 0) (inp ! 1))"
    and f2: "\<not> fst (interpolateAndCollisionCheck e (inp ! 1) (inp ! 2))"
  shows "attemptShortcut e inp = None"
proof -
  let ?s1 = "\<lparr>last_point_ind = 1, current_point_ind = 2, last_good_start_ind = 1,
              last_good_end_ind = 1, traj_out = [hd inp, inp ! 1],
              last_good_segment_values = []\<rparr>"
  from len have ne: "inp \<noteq> []" and n1: "length inp \<noteq> 1"
    and l0: "0 < length inp" and l1: "1 < length inp" and l2: "2 < length inp"
    by auto
  have first: "shortcut_try e inp (shortcut_init inp) = Inr ?s1"
    using l0 l1 f1 by (simp add: shortcut_try_def shortcut_init_def)
  have again: "shortcut_try e inp ?s1 = Inr ?s1"
    using l1 l2 f2 by (simp add: shortcut_try_def)
  have "shortcut_loop e inp ?s1 = None"
    by (rule shortcut_loop_stuck [OF again]) (use l2 in simp)
  then have "shortcut_loop e inp (shortcut_init inp) = None"
    using first l2 by (subst shortcut_loop.simps) simp
  then show ?thesis using ne n1 by (simp add: attemptShortcut_def)
qed

text \<open>
  The instance: in a world where every configuration collides, the shortcutter
  does not return on the trajectory \<open>[0], [1], [2]\<close>.
\<close>

theorem attemptShortcut_diverges_on_two_failures_witness:
  "3 \<le> length [[0], [1], [2 :: real]] \<and>
   \<not> fst (interpolateAndCollisionCheck env_blocked [0] [1]) \<and>
   \<not> fst (interpolateAndCollisionCheck env_blocked [1] [2]) \<and>
   attemptShortcut env_blocked [[0], [1], [2]] = None"
proof -
  have len: "3 \<le> length [[0], [1], [2 :: real]]" by simp
  have f1: "\<not> fst (interpolateAndCollisionCheck env_blocked ([[0], [1], [2]] ! 0) ([[0], [1], [2]] ! 1))"
    and f2: "\<not> fst (interpolateAndCollisionCheck env_blocked ([[0], [1], [2]] ! 1) ([[0], [1], [2]] ! 2))"
    by (simp_all add: blocked_invalid)
  from attemptShortcut_diverges_on_two_failures [OF len f1 f2] f1 f2 show ?thesis by simp
qed

subsection \<open>C3: the samples that are checked for collision\<close>

text \<open>
  C3 fails on the code: the last-but-one sample is interpolated and recorded but
  never checked. From \<open>[0]\<close> to \<open>[2]\<close> with two steps, the destination is free,
  the only interior sample \<open>[1]\<close> is in collision, and the motion is reported
  valid after a single collision check, that of the destination.
\<close>

theorem interpolateAndCollisionCheck_skips_last_sample:
  "getJointDistanceIntegerMax (shortest_angular_distance env_blocked_at_1) [0] [2]
     (interpolation_distance (params env_blocked_at_1)) = 2 \<and>
   \<not> checkCollision env_blocked_at_1 [2] \<and>
   checkCollision env_blocked_at_1 (sample env_blocked_at_1 [0] [2] 2 1) \<and>
   interpolateAndCollisionCheck env_blocked_at_1 [0] [2] = (True, [[1]], 1)"
  by (simp add: interpolateAndCollisionCheck_def env_simps steps_0_2 interpolate_loop.simps
      linear_interpolate_def sample_def)

subsection \<open>C4: configurations of different lengths\<close>

text \<open>
  C4 fails on the code: for vectors of different lengths the step count is the
  sentinel \<open>INT_MAX\<close>, which the validity check uses as a number of steps. In a
  world without obstacles the motion from \<open>[0]\<close> to \<open>[0, 0]\<close> is reported valid,
  after 2147483646 interpolations and as many collision checks.
\<close>

theorem interpolateAndCollisionCheck_length_mismatch_accepted:
  "length [0 :: real] \<noteq> length [0, 0 :: real] \<and>
   fst (interpolateAndCollisionCheck env_free [0] [0, 0]) \<and>
   length (fst (snd (interpolateAndCollisionCheck env_free [0] [0, 0]))) = 2147483646 \<and>
   snd (snd (interpolateAndCollisionCheck env_free [0] [0, 0])) = 2147483646"
proof -
  have "interpolateAndCollisionCheck env_free [0] [0, 0] =
        (True, map (sample env_free [0] [0, 0] INT_MAX) [1 .. INT_MAX - 1], 2147483646)"
    by (rule mismatch_runs_all_steps) (simp_all add: env_simps)
  then show ?thesis by (simp add: INT_MAX_def)
qed

subsection \<open>C5: a world in which every motion is valid\<close>

text \<open>
  C5 as stated fails: in a world without obstacles the trajectory \<open>[0], [3]\<close>
  comes back with four waypoints, the two interior samples of the validated
  motion between its ends included.
\<close>

theorem attemptShortcut_keeps_samples_counterexample:
  "fst (interpolateAndCollisionCheck env_free [0] [0]) \<and>
   fst (interpolateAndCollisionCheck env_free [0] [3]) \<and>
   fst (interpolateAndCollisionCheck env_free [3] [0]) \<and>
   fst (interpolateAndCollisionCheck env_free [3] [3]) \<and>
   attemptShortcut env_free [[0], [3]] = Some (Inr [[0], [1], [2], [3]])"
  by (simp add: free_valid run_free_0_3)

text \<open>
  C5, amended: for every input trajectory with at least two waypoints, if every
  validity check between two of its waypoints succeeds, the shortcutter returns
  the first waypoint, then the interior samples of the validated motion from
  the first to the last waypoint, then the last waypoint; the output is
  exactly the first and the last waypoint when that motion has at most one
  interpolation step.
\<close>

theorem attemptShortcut_all_valid:
  assumes len: "2 \<le> length inp"
    and ok: "\<forall>a \<in> set inp. \<forall>b \<in> set inp. fst (interpolateAndCollisionCheck e a b)"
  shows "attemptShortcut e inp =
           Some (Inr (hd inp # fst (snd (interpolateAndCollisionCheck e (hd inp) (last inp)))
                        @ [last inp])) \<and>
         (getJointDistanceIntegerMax (shortest_angular_distance e) (hd inp) (last inp)
            (interpolation_distance (params e)) \<le> 1 \<longrightarrow>
          attemptShortcut e inp = Some (Inr [hd inp, last inp]))"
proof -
  from len have ne: "inp \<noteq> []" and n1: "length inp \<noteq> 1" by auto
  have hd0: "inp ! 0 = hd inp" using ne by (simp add: hd_conv_nth)
  have "shortcut_loop e inp (shortcut_init inp) =
        Some (Inr (traj_out (shortcut_init inp)
                     @ fst (snd (interpolateAndCollisionCheck e (inp ! 0) (last inp)))
                     @ [last inp]))"
  proof (rule shortcut_loop_all_valid)
    fix j assume "0 < j" "j < length inp"
    then show "fst (interpolateAndCollisionCheck e (inp ! 0) (inp ! j))"
      using ok ne by (simp add: nth_mem)
  qed (use len in \<open>simp_all add: shortcut_init_def\<close>)
  then have run: "attemptShortcut e inp =
           Some (Inr (hd inp # fst (snd (interpolateAndCollisionCheck e (hd inp) (last inp)))
                        @ [last inp]))"
    using ne n1 by (simp add: attemptShortcut_def shortcut_init_def hd0)
  have "fst (interpolateAndCollisionCheck e (hd inp) (last inp))"
    using ok ne by simp
  from no_steps_no_samples [OF this] run show ?thesis by simp
qed

theorem attemptShortcut_all_valid_witness:
  "2 \<le> length [[0], [1 :: real]] \<and>
   fst (interpolateAndCollisionCheck env_free [0] [0]) \<and>
   fst (interpolateAndCollisionCheck env_free [0] [1]) \<and>
   fst (interpolateAndCollisionCheck env_free [1] [0]) \<and>
   fst (interpolateAndCollisionCheck env_free [1] [1]) \<and>
   getJointDistanceIntegerMax (shortest_angular_distance env_free) (hd [[0], [1]]) (last [[0], [1]])
     (interpolation_distance (params env_free)) \<le> 1 \<and>
   attemptShortcut env_free [[0], [1]] = Some (Inr [[0], [1]])"
proof -
  have len: "2 \<le> length [[0], [1 :: real]]" by simp
  have ok: "\<forall>a \<in> set [[0], [1]]. \<forall>b \<in> set [[0], [1]].
      fst (interpolateAndCollisionCheck env_free a b)"
    by (simp add: free_valid)
  have st: "getJointDistanceIntegerMax (shortest_angular_distance env_free) (hd [[0], [1]])
     (last [[0], [1]]) (interpolation_distance (params env_free)) \<le> 1"
    by (simp add: env_simps steps_0_1)
  from attemptShortcut_all_valid [OF len ok, THEN conjunct2] len ok st show ?thesis by simp
qed

subsection \<open>C6: the ends of the trajectory\<close>




subsection \<open>C7: identifiers that were never assigned\<close>

text \<open>
  C7 fails on the code for negative identifiers: when the first identifier that
  was never assigned is negative, the reconstruction does not return its
  failure flag; it reads the state table out of bounds.
\<close>

theorem populateTrajectory_negative_id_out_of_bounds:
  assumes "k < length state_ids" and "state_ids ! k < 0"
    and "\<forall>j. j < k \<longrightarrow>
           0 \<le> state_ids ! j \<and> state_ids ! j < int (length (state_ID_to_coord_table e))"
  shows "populateTrajectoryFromStateIDSequence e state_ids traj = Inl OutOfBounds"
  unfolding populateTrajectoryFromStateIDSequence_def
  by (rule populate_negative [OF assms]) simp

theorem populateTrajectory_negative_id_out_of_bounds_witness:
  "(1 :: nat) < length [0, - 1 :: int] \<and> [0, - 1 :: int] ! 1 < 0 \<and>
   0 \<le> [0, - 1 :: int] ! 0 \<and>
   [0, - 1 :: int] ! 0 < int (length (state_ID_to_coord_table env_free)) \<and>
   populateTrajectoryFromStateIDSequence env_free [0, - 1] [] = Inl OutOfBounds"
proof -
  have a: "(1 :: nat) < length [0, - 1 :: int]" by simp
  have b: "[0, - 1 :: int] ! 1 < 0" by simp
  have c: "\<forall>j. j < (1 :: nat) \<longrightarrow> 0 \<le> [0, - 1 :: int] ! j \<and>
          [0, - 1 :: int] ! j < int (length (state_ID_to_coord_table env_free))"
    by (simp add: env_simps example_table_def)
  from populateTrajectory_negative_id_out_of_bounds [OF a b c] a b c show ?thesis by simp
qed

subsection \<open>C8: the value of the heuristic\<close>

lemma to_int_Inr_iff: "to_int v = Inr h \<longleftrightarrow> h = v \<and> INT_MIN \<le> v \<and> v \<le> INT_MAX"
  by (auto simp: to_int_def)

lemma trunc_real_nonneg: "0 \<le> r \<Longrightarrow> 0 \<le> trunc_real r"
  by (simp add: trunc_real_def)

lemma trunc_real_zero_iff: "trunc_real r = 0 \<longleftrightarrow> \<bar>r\<bar> < 1"
  by (auto simp: trunc_real_def floor_eq_iff ceiling_eq_iff)

lemma cast_int_zero_iff: "cast_int r = Inr 0 \<longleftrightarrow> \<bar>r\<bar> < 1"
proof -
  have "cast_int r = Inr 0 \<longleftrightarrow> trunc_real r = 0"
    by (auto simp: cast_int_def to_int_Inr_iff INT_MIN_def INT_MAX_def)
  then show ?thesis by (simp add: trunc_real_zero_iff)
qed

lemma getEuclideanDistance_nonneg: "0 \<le> getEuclideanDistance x1 y1 z1 x2 y2 z2"
  by (simp add: getEuclideanDistance_def)

lemma getEuclideanDistance_x_axis: "getEuclideanDistance x 0 0 0 0 0 = \<bar>x\<bar>"
  by (simp add: getEuclideanDistance_def)

lemma heuristic_euclidean:
  "\<not> use_bfs (params e) \<Longrightarrow> getEndEffectorHeuristic e x y z = cast_int (scaled_distance e x y z)"
  by (simp add: getEndEffectorHeuristic_def scaled_distance_def Let_def)

lemma scaled_distance_example:
  "goal e = \<lparr>stateID = 1, coord = [0], angles = [0], xyz = (0, 0, 0)\<rparr> \<Longrightarrow>
   scaled_distance e x 0 0 = \<bar>real_of_int x\<bar> * field_resolution (params e) * cost_per_meter (params e)"
  by (simp add: scaled_distance_def getEuclideanDistance_x_axis)

text \<open>
  C8 as stated fails, in three ways. The conversion truncates: with resolution
  \<open>1/2\<close> and unit cost per meter the cell \<open>(1, 0, 0)\<close> has heuristic zero although
  the goal cell is \<open>(0, 0, 0)\<close>. The sign is that of the cost factors: a cost per
  meter of \<open>-1\<close> gives the cell \<open>(4, 0, 0)\<close> the heuristic \<open>-2\<close>, and in BFS mode
  a cost per cell of \<open>-1\<close> gives the cell \<open>(1, 0, 0)\<close> the heuristic \<open>-1\<close>. The value must fit an \<^verbatim>\<open>int\<close>: with a cost per meter of \<open>2^32\<close> the
  scaled distance of the cell \<open>(1, 0, 0)\<close> is \<open>2^31\<close> and its conversion is
  undefined.
\<close>

theorem heuristic_zero_off_goal_counterexample:
  "\<not> use_bfs (params env_free) \<and> xyz (goal env_free) = (0, 0, 0) \<and>
   getEndEffectorHeuristic env_free 1 0 0 = Inr 0 \<and>
   getEndEffectorHeuristic env_negative_cost 4 0 0 = Inr (- 2) \<and>
   getEndEffectorHeuristic env_bfs_negative_cost 1 0 0 = Inr (- 1) \<and>
   getEndEffectorHeuristic env_huge_cost 1 0 0 = Inl IntOverflow"
proof -
  have a: "getEndEffectorHeuristic env_free 1 0 0 = Inr 0"
    by (simp add: heuristic_euclidean scaled_distance_example cast_int_zero_iff env_simps)
  have b: "getEndEffectorHeuristic env_negative_cost 4 0 0 = Inr (- 2)"
    by (simp add: heuristic_euclidean scaled_distance_example env_simps cast_int_def
        trunc_real_def to_int_def INT_MIN_def INT_MAX_def)
  have c: "getEndEffectorHeuristic env_bfs_negative_cost 1 0 0 = Inr (- 1)"
    by (simp add: getEndEffectorHeuristic_def env_simps to_int_def INT_MIN_def INT_MAX_def)
  have d: "getEndEffectorHeuristic env_huge_cost 1 0 0 = Inl IntOverflow"
    by (simp add: heuristic_euclidean scaled_distance_example env_simps cast_int_def
        trunc_real_def to_int_def INT_MIN_def INT_MAX_def)
  from a b c d show ?thesis by (simp add: env_simps)
qed

text \<open>
  C8, amended. For every grid cell \<open>(x, y, z)\<close>:
  \<^item> in BFS mode the heuristic is the BFS distance of the cell times the cost per
    cell, undefined when the product does not fit an \<^verbatim>\<open>int\<close>; it is zero
    exactly when the BFS distance or the cost per cell is zero; it is not
    negative when it is defined and neither the BFS distance nor the cost per
    cell is negative;
  \<^item> in the Euclidean mode the heuristic is the straight-line cell distance to
    the goal cell scaled by the resolution and the cost per meter, truncated
    toward zero, undefined when the truncated number does not fit an \<^verbatim>\<open>int\<close>;
    it is zero exactly at the cells whose scaled distance is below one in
    absolute value, the goal cell among them; it is not negative when it is
    defined and neither the resolution nor the cost per meter is negative;
  \<^item> a defined heuristic lies in the range of \<^verbatim>\<open>int\<close>.
\<close>

theorem getEndEffectorHeuristic_value:
  "(use_bfs (params e) \<longrightarrow>
      getEndEffectorHeuristic e x y z =
        to_int (bfs_getDistance e x y z * cost_per_cell (params e)) \<and>
      (getEndEffectorHeuristic e x y z = Inr 0 \<longleftrightarrow>
         bfs_getDistance e x y z = 0 \<or> cost_per_cell (params e) = 0) \<and>
      (0 \<le> bfs_getDistance e x y z \<and> 0 \<le> cost_per_cell (params e) \<and>
       getEndEffectorHeuristic e x y z = Inr h \<longrightarrow> 0 \<le> h)) \<and>
   (\<not> use_bfs (params e) \<longrightarrow>
      getEndEffectorHeuristic e x y z = cast_int (scaled_distance e x y z) \<and>
      (getEndEffectorHeuristic e x y z = Inr 0 \<longleftrightarrow> \<bar>scaled_distance e x y z\<bar> < 1) \<and>
      ((x, y, z) = xyz (goal e) \<longrightarrow> getEndEffectorHeuristic e x y z = Inr 0) \<and>
      (0 \<le> field_resolution (params e) \<and> 0 \<le> cost_per_meter (params e) \<and>
       getEndEffectorHeuristic e x y z = Inr h \<longrightarrow> 0 \<le> h)) \<and>
   (getEndEffectorHeuristic e x y z = Inr h \<longrightarrow> INT_MIN \<le> h \<and> h \<le> INT_MAX)"
proof (intro conjI impI)
  assume b: "use_bfs (params e)"
  then show eq: "getEndEffectorHeuristic e x y z =
        to_int (bfs_getDistance e x y z * cost_per_cell (params e))"
    by (simp add: getEndEffectorHeuristic_def)
  show "getEndEffectorHeuristic e x y z = Inr 0 \<longleftrightarrow>
         bfs_getDistance e x y z = 0 \<or> cost_per_cell (params e) = 0"
    unfolding eq by (auto simp: to_int_Inr_iff INT_MIN_def INT_MAX_def)
next
  assume b: "use_bfs (params e)"
    and "0 \<le> bfs_getDistance e x y z \<and> 0 \<le> cost_per_cell (params e) \<and>
         getEndEffectorHeuristic e x y z = Inr h"
  then show "0 \<le> h"
    by (auto simp: getEndEffectorHeuristic_def to_int_Inr_iff)
next
  assume nb: "\<not> use_bfs (params e)"
  show "getEndEffectorHeuristic e x y z = cast_int (scaled_distance e x y z)"
    by (rule heuristic_euclidean [OF nb])
  show "getEndEffectorHeuristic e x y z = Inr 0 \<longleftrightarrow> \<bar>scaled_distance e x y z\<bar> < 1"
    by (simp add: heuristic_euclidean [OF nb] cast_int_zero_iff)
next
  assume nb: "\<not> use_bfs (params e)" and g: "(x, y, z) = xyz (goal e)"
  from g have "fst (xyz (goal e)) = x" "fst (snd (xyz (goal e))) = y" "snd (snd (xyz (goal e))) = z"
    by (metis fst_conv, metis fst_conv snd_conv, metis snd_conv)
  then have "scaled_distance e x y z = 0"
    by (simp add: scaled_distance_def getEuclideanDistance_def)
  then show "getEndEffectorHeuristic e x y z = Inr 0"
    by (simp add: heuristic_euclidean [OF nb] cast_int_zero_iff)
next
  assume nb: "\<not> use_bfs (params e)"
    and a: "0 \<le> field_resolution (params e) \<and> 0 \<le> cost_per_meter (params e) \<and>
         getEndEffectorHeuristic e x y z = Inr h"
  have "0 \<le> scaled_distance e x y z"
    unfolding scaled_distance_def using a getEuclideanDistance_nonneg by simp
  from trunc_real_nonneg [OF this] a show "0 \<le> h"
    by (auto simp: heuristic_euclidean [OF nb] cast_int_def to_int_Inr_iff)
next
  assume "getEndEffectorHeuristic e x y z = Inr h"
  then show "INT_MIN \<le> h" "h \<le> INT_MAX"
    by (auto simp: getEndEffectorHeuristic_def cast_int_def to_int_Inr_iff Let_def split: if_splits)
qed

theorem getEndEffectorHeuristic_value_witness:
  "\<not> use_bfs (params env_free) \<and>
   0 \<le> field_resolution (params env_free) \<and> 0 \<le> cost_per_meter (params env_free) \<and>
   getEndEffectorHeuristic env_free 2 0 0 = Inr 1 \<and>
   (0 :: int) \<le> 1 \<and> INT_MIN \<le> 1 \<and> 1 \<le> INT_MAX \<and>
   xyz (goal env_free) = (0, 0, 0) \<and> getEndEffectorHeuristic env_free 0 0 0 = Inr 0 \<and>
   \<bar>scaled_distance env_free 1 0 0\<bar> < 1 \<and> getEndEffectorHeuristic env_free 1 0 0 = Inr 0 \<and>
   use_bfs (params env_bfs) \<and>
   0 \<le> bfs_getDistance env_bfs 1 2 0 \<and> 0 \<le> cost_per_cell (params env_bfs) \<and>
   getEndEffectorHeuristic env_bfs 1 2 0 = Inr 9 \<and> (0 :: int) \<le> 9 \<and>
   bfs_getDistance env_bfs 0 0 0 = 0 \<and> getEndEffectorHeuristic env_bfs 0 0 0 = Inr 0"
proof -
  have e1: "getEndEffectorHeuristic env_free 2 0 0 = Inr 1"
    by (simp add: heuristic_euclidean scaled_distance_example env_simps cast_int_def
        trunc_real_def to_int_def INT_MIN_def INT_MAX_def)
  have b1: "getEndEffectorHeuristic env_bfs 1 2 0 = Inr 9"
    by (simp add: getEndEffectorHeuristic_def env_simps to_int_def INT_MIN_def INT_MAX_def)
  have nb: "\<not> use_bfs (params env_free)" and ub: "use_bfs (params env_bfs)"
    by (simp_all add: env_simps)
  have pos: "0 \<le> field_resolution (params env_free)" "0 \<le> cost_per_meter (params env_free)"
    "0 \<le> bfs_getDistance env_bfs 1 2 0" "0 \<le> cost_per_cell (params env_bfs)"
    by (simp_all add: env_simps)
  have g: "xyz (goal env_free) = (0, 0, 0)" and g': "(0, 0, 0) = xyz (goal env_free)"
    by (simp_all add: env_simps)
  have d0: "bfs_getDistance env_bfs 0 0 0 = 0" by (simp add: env_simps)
  have sd: "\<bar>scaled_distance env_free 1 0 0\<bar> < 1"
    by (simp add: env_simps scaled_distance_example)
  have w1: "(0 :: int) \<le> 1 \<and> INT_MIN \<le> 1 \<and> 1 \<le> INT_MAX"
    using getEndEffectorHeuristic_value [of env_free 2 0 0 1] nb pos e1 by blast
  have w2: "getEndEffectorHeuristic env_free 0 0 0 = Inr 0"
    using getEndEffectorHeuristic_value [of env_free 0 0 0 0] nb g' by blast
  have w3: "getEndEffectorHeuristic env_free 1 0 0 = Inr 0"
    using getEndEffectorHeuristic_value [of env_free 1 0 0 0] nb sd by blast
  have w4: "(0 :: int) \<le> 9"
    using getEndEffectorHeuristic_value [of env_bfs 1 2 0 9] ub pos b1 by blast
  have w5: "getEndEffectorHeuristic env_bfs 0 0 0 = Inr 0"
    using getEndEffectorHeuristic_value [of env_bfs 0 0 0 0] ub d0 by blast
  from nb ub pos e1 b1 g d0 sd w1 w2 w3 w4 w5 show ?thesis by blast
qed

subsection \<open>C9: poses outside the grid\<close>






subsection \<open>C10: the empty trajectory\<close>

text \<open>
  C10: on the empty trajectory the shortcutter reads a waypoint out of bounds,
  and on a trajectory with at least one waypoint it never does.
\<close>

theorem attemptShortcut_empty_trajectory:
  "attemptShortcut e [] = Some (Inl OutOfBounds) \<and>
   (inp \<noteq> [] \<longrightarrow> attemptShortcut e inp \<noteq> Some (Inl err))"
proof (intro conjI impI)
  show "attemptShortcut e [] = Some (Inl OutOfBounds)" by (simp add: attemptShortcut_def)
next
  assume ne: "inp \<noteq> []"
  show "attemptShortcut e inp \<noteq> Some (Inl err)"
  proof (cases "length inp = 1")
    case True
    then show ?thesis by (simp add: attemptShortcut_def)
  next
    case False
    with ne have len: "1 < length inp" by (cases inp) auto
    show ?thesis
    proof
      assume "attemptShortcut e inp = Some (Inl err)"
      with ne False have "shortcut_loop e inp (shortcut_init inp) = Some (Inl err)"
        by (simp add: attemptShortcut_def)
      then have "\<exists>out. Inl err = (Inr out :: error + config list)"
        by (rule shortcut_loop_no_fault) (use len in \<open>simp_all add: shortcut_init_def\<close>)
      then show False by simp
    qed
  qed
qed

theorem attemptShortcut_empty_trajectory_witness:
  "attemptShortcut env_free [] = Some (Inl OutOfBounds) \<and>
   [[0], [3 :: real]] \<noteq> [] \<and> attemptShortcut env_free [[0], [3]] \<noteq> Some (Inl OutOfBounds)"
  using attemptShortcut_empty_trajectory [of env_free "[[0], [3]]" OutOfBounds] by simp

end
